theory Spec2Isabelle
  imports Main
begin

section \<open>Status codes\<close>

text \<open>
  The status enumeration of \<^verbatim>\<open>thumbnailer.h\<close> (\<^verbatim>\<open>Thumbnailer::Status\<close>), in the order
  of its declaration. \<^verbatim>\<open>thumbnailer_util.cc\<close> returns \<^verbatim>\<open>kOk\<close>, \<^verbatim>\<open>kMemoryError\<close> and
  \<^verbatim>\<open>kGenericError\<close> of \<^verbatim>\<open>ThumbnailerUtil::Status\<close>; they are identified here with
  the codes of the same names.
\<close>

datatype Status =
    kOk
  | kMemoryError
  | kImageFormatError
  | kByteBudgetError
  | kStatsError
  | kWebPMuxError
  | kSlopeOptimError
  | kGenericError

section \<open>The decode-and-compare utility (\<^verbatim>\<open>thumbnailer_util.cc\<close>)\<close>

subsection \<open>Data\<close>

text \<open>
  A \<^verbatim>\<open>WebPPicture\<close> as far as the utility touches it: the fields that
  \<^verbatim>\<open>AnimData2Pictures\<close> assigns and the pixels that \<^verbatim>\<open>WebPPictureImportRGBA\<close> fills
  in. The type \<open>'px\<close> stands for a pixel buffer (one that holds no pixels included).
\<close>

record 'px WebPPicture =
  use_argb :: int
  width :: int
  height :: int
  argb :: 'px

text \<open>
  What a \<^verbatim>\<open>WebPAnimDecoder\<close> will answer: \<^verbatim>\<open>WebPAnimDecoderGetInfo\<close> gives the canvas
  width and height or fails (\<open>None\<close>); every remaining frame is one answer of
  \<^verbatim>\<open>WebPAnimDecoderGetNext\<close>, the RGBA buffer with its timestamp or a failure
  (\<open>None\<close>). \<^verbatim>\<open>WebPAnimDecoderHasMoreFrames\<close> holds while the list is not empty.
\<close>

record 'px WebPAnimDecoder =
  GetInfo :: "(int \<times> int) option"
  GetNext :: "('px \<times> int) option list"

text \<open>
  The library calls and the \<^verbatim>\<open>float\<close> arithmetic the utility relies on. PSNR values
  have the type \<open>'v\<close>; \<^verbatim>\<open>std::sort\<close> orders them, every other operation on them is
  a field of this record, so that no property below depends on rounding.
  \<^item> \<open>WebPAnimDecoderNew\<close>: the decoder for a byte buffer, \<open>None\<close> for \<^verbatim>\<open>NULL\<close>;
  \<^item> \<open>new_WebPPicture\<close>: what the object made by \<^verbatim>\<open>new WebPPicture\<close> holds before it is
    initialised;
  \<^item> \<open>WebPPictureInit\<close>: for a picture, whether initialising it succeeds, and the
    picture as the call leaves it;
  \<^item> \<open>WebPPictureImportRGBA\<close>: for a picture, an RGBA buffer and a stride, whether
    the import succeeds, and the picture as the call leaves it;
  \<^item> \<open>WebPPictureDistortion\<close>: \<^verbatim>\<open>distortion_result[4]\<close> (PSNR-all) of two pictures,
    \<open>None\<close> when the call returns 0;
  \<^item> \<open>mean_of xs n\<close>: \<^verbatim>\<open>std::accumulate(xs.begin(), xs.end(), 0.0) / n\<close> stored in a
    \<^verbatim>\<open>float\<close>;
  \<^item> \<open>minus a b\<close>: \<^verbatim>\<open>a - b\<close>; \<open>sum_of xs\<close>: \<^verbatim>\<open>std::accumulate(..., 0.0)\<close> stored in a
    \<^verbatim>\<open>float\<close>; \<open>div_count s n\<close>: \<^verbatim>\<open>s / n\<close>.
\<close>

record ('d, 'px, 'v) library =
  WebPAnimDecoderNew :: "'d \<Rightarrow> 'px WebPAnimDecoder option"
  new_WebPPicture :: "'px WebPPicture"
  WebPPictureInit :: "'px WebPPicture \<Rightarrow> bool \<times> 'px WebPPicture"
  WebPPictureImportRGBA :: "'px WebPPicture \<Rightarrow> 'px \<Rightarrow> int \<Rightarrow> bool \<times> 'px WebPPicture"
  WebPPictureDistortion :: "'px WebPPicture \<Rightarrow> 'px WebPPicture \<Rightarrow> 'v option"
  mean_of :: "'v list \<Rightarrow> nat \<Rightarrow> 'v"
  minus :: "'v \<Rightarrow> 'v \<Rightarrow> 'v"
  sum_of :: "'v list \<Rightarrow> 'v"
  div_count :: "'v \<Rightarrow> nat \<Rightarrow> 'v"

text \<open>
  \<^verbatim>\<open>ThumbnailStatPSNR\<close> and \<^verbatim>\<open>ThumbnailDiffPSNR\<close>, with the fields that
  \<^verbatim>\<open>thumbnailer_util.cc\<close> reads and writes.
\<close>

record 'v ThumbnailStatPSNR =
  psnr :: "'v list"
  min_psnr :: 'v
  max_psnr :: 'v
  mean_psnr :: 'v
  median_psnr :: 'v

record 'v ThumbnailDiffPSNR =
  psnr_diff :: "'v list"
  max_psnr_decrease :: 'v
  max_psnr_increase :: 'v
  sum_psnr_diff :: 'v
  mean_psnr_diff :: 'v
  median_psnr_diff :: 'v

text \<open>
  A call either returns, or reads an element of an empty vector
  (\<^verbatim>\<open>front()\<close>, \<^verbatim>\<open>back()\<close>, \<^verbatim>\<open>operator[]\<close>), which C++ leaves undefined.
\<close>

datatype 'a outcome = Returns 'a | UndefinedBehaviour

subsection \<open>\<^verbatim>\<open>AnimData2Pictures\<close>\<close>

text \<open>
  The \<^verbatim>\<open>while\<close> loop over the decoder's frames. Each round asks for the next frame,
  appends a new picture to the vector, initialises it, assigns \<^verbatim>\<open>use_argb\<close>,
  \<^verbatim>\<open>width\<close> and \<^verbatim>\<open>height\<close>, and imports the RGBA buffer with the stride
  \<^verbatim>\<open>width * 4\<close>; the first failure returns \<^verbatim>\<open>kMemoryError\<close>. A failing
  \<^verbatim>\<open>WebPAnimDecoderGetNext\<close> comes before \<^verbatim>\<open>emplace_back\<close> and leaves the vector as
  it was; a failing \<^verbatim>\<open>WebPPictureInit\<close> or \<^verbatim>\<open>WebPPictureImportRGBA\<close> leaves the picture
  of that round in the vector, as the failing call left it.
\<close>

fun decode_frames ::
  "('d, 'px, 'v) library \<Rightarrow> int \<Rightarrow> int \<Rightarrow> ('px \<times> int) option list \<Rightarrow>
   'px WebPPicture list \<Rightarrow> Status \<times> 'px WebPPicture list" where
  "decode_frames lib w h [] pics = (kOk, pics)"
| "decode_frames lib w h (None # rest) pics = (kMemoryError, pics)"
| "decode_frames lib w h (Some (frame_rgba, timestamp) # rest) pics =
     (case WebPPictureInit lib (new_WebPPicture lib) of
        (init_ok, pic0) \<Rightarrow>
          if \<not> init_ok then (kMemoryError, pics @ [pic0])
          else
            (case WebPPictureImportRGBA lib
                    (pic0\<lparr>use_argb := 1, width := w, height := h\<rparr>) frame_rgba (w * 4) of
               (import_ok, pic1) \<Rightarrow>
                 if \<not> import_ok then (kMemoryError, pics @ [pic1])
                 else decode_frames lib w h rest (pics @ [pic1])))"

definition AnimData2Pictures ::
  "('d, 'px, 'v) library \<Rightarrow> 'd \<Rightarrow> 'px WebPPicture list \<Rightarrow> Status \<times> 'px WebPPicture list" where
  "AnimData2Pictures lib webp_data pics =
     (case WebPAnimDecoderNew lib webp_data of
        None \<Rightarrow> (kMemoryError, pics)
      | Some dec \<Rightarrow>
          (case GetInfo dec of
             None \<Rightarrow> (kGenericError, pics)
           | Some (w, h) \<Rightarrow> decode_frames lib w h (GetNext dec) pics))"

subsection \<open>\<^verbatim>\<open>AnimData2PSNR\<close>\<close>

text \<open>
  The \<^verbatim>\<open>for\<close> loop over the picture pairs \<open>(original_pics[i], pics[i])\<close>,
  \<open>i = 0, 1, ...\<close>: the PSNR of each pair is pushed onto \<^verbatim>\<open>stats->psnr\<close>, and the
  first failing \<^verbatim>\<open>WebPPictureDistortion\<close> leaves the loop (\<^verbatim>\<open>break\<close>).
\<close>

fun push_psnr ::
  "('d, 'px, 'v) library \<Rightarrow> ('px WebPPicture \<times> 'px WebPPicture) list \<Rightarrow> 'v list \<Rightarrow> 'v list" where
  "push_psnr lib [] ps = ps"
| "push_psnr lib ((orig_pic, pic) # rest) ps =
     (case WebPPictureDistortion lib orig_pic pic of
        None \<Rightarrow> ps
      | Some v \<Rightarrow> push_psnr lib rest (ps @ [v]))"

text \<open>
  \<open>stats\<close> is \<open>None\<close> for a \<^verbatim>\<open>NULL\<close> pointer. The result is the status with the
  object \<open>stats\<close> points to as the call leaves it. The loop runs over both vectors
  only once they have the same size, so it is the loop over their \<open>zip\<close>.
  (\<^verbatim>\<open>pic_count\<close> is an \<^verbatim>\<open>int\<close>; the model counts in \<open>nat\<close>, which is the same below
  \<open>2^31\<close> pictures.)
\<close>

definition AnimData2PSNR ::
  "('d, 'px, 'v::linorder) library \<Rightarrow> 'px WebPPicture list \<Rightarrow> 'd \<Rightarrow>
   'v ThumbnailStatPSNR option \<Rightarrow> (Status \<times> 'v ThumbnailStatPSNR option) outcome" where
  "AnimData2PSNR lib original_pics webp_data stats =
     (case stats of
        None \<Rightarrow> Returns (kMemoryError, None)
      | Some st \<Rightarrow>
          (case AnimData2Pictures lib webp_data [] of
             (data2pics_error, pics) \<Rightarrow>
               if data2pics_error \<noteq> kOk then Returns (data2pics_error, Some st)
               else if length pics \<noteq> length original_pics
                 then Returns (kGenericError, Some st)
               else
                 let pic_count = length original_pics;
                     st1 = st\<lparr>psnr := push_psnr lib (zip original_pics pics) (psnr st)\<rparr>
                 in if length (psnr st1) \<noteq> pic_count then Returns (kMemoryError, Some st1)
                    else
                      let new_psnr = sort (psnr st1)
                      in if new_psnr = [] then UndefinedBehaviour
                         else Returns (kOk, Some (st1
                                \<lparr>min_psnr := hd new_psnr,
                                 max_psnr := last new_psnr,
                                 mean_psnr := mean_of lib new_psnr pic_count,
                                 median_psnr := new_psnr ! (pic_count div 2)\<rparr>))))"

subsection \<open>\<^verbatim>\<open>CompareThumbnail\<close>\<close>

text \<open>
  \<^verbatim>\<open>stats_1\<close> and \<^verbatim>\<open>stats_2\<close> are default-constructed locals: an empty \<^verbatim>\<open>psnr\<close>
  vector, and summary fields that hold whatever value \<open>u\<close> they start with.
\<close>

definition fresh_stats :: "'v \<Rightarrow> 'v ThumbnailStatPSNR" where
  "fresh_stats u =
     \<lparr>psnr = [], min_psnr = u, max_psnr = u, mean_psnr = u, median_psnr = u\<rparr>"

text \<open>
  The tail of \<^verbatim>\<open>CompareThumbnail\<close>, once both \<^verbatim>\<open>AnimData2PSNR\<close> calls returned
  \<^verbatim>\<open>kOk\<close>: push the differences, sort a copy, record the statistics.
\<close>

definition record_diff ::
  "('d, 'px, 'v::linorder) library \<Rightarrow> nat \<Rightarrow> 'v list \<Rightarrow> 'v list \<Rightarrow>
   'v ThumbnailDiffPSNR \<Rightarrow> (Status \<times> 'v ThumbnailDiffPSNR option) outcome" where
  "record_diff lib pic_count psnr_1 psnr_2 df =
     (if pic_count > length psnr_1 \<or> pic_count > length psnr_2 then UndefinedBehaviour
      else
        let df1 = df\<lparr>psnr_diff := psnr_diff df @
                     map (\<lambda>i. minus lib (psnr_2 ! i) (psnr_1 ! i)) [0..<pic_count]\<rparr>;
            sorted_diff = sort (psnr_diff df1)
        in if sorted_diff = [] \<or> pic_count div 2 \<ge> length sorted_diff then UndefinedBehaviour
           else
             let s = sum_of lib sorted_diff
             in Returns (kOk, Some (df1
                  \<lparr>max_psnr_decrease := hd sorted_diff,
                   max_psnr_increase := last sorted_diff,
                   sum_psnr_diff := s,
                   mean_psnr_diff := div_count lib s pic_count,
                   median_psnr_diff := sorted_diff ! (pic_count div 2)\<rparr>)))"

text \<open>
  \<open>diff\<close> is \<open>None\<close> for a \<^verbatim>\<open>NULL\<close> pointer; the result is the status with the object
  \<open>diff\<close> points to as the call leaves it. The messages written to \<^verbatim>\<open>std::cerr\<close> are
  not part of the model. (The last case of the definition is never taken:
  \<^verbatim>\<open>AnimData2PSNR\<close> called on an object returns that object.)
\<close>

definition CompareThumbnail ::
  "('d, 'px, 'v::linorder) library \<Rightarrow> 'v \<Rightarrow> 'px WebPPicture list \<Rightarrow> 'd \<Rightarrow> 'd \<Rightarrow>
   'v ThumbnailDiffPSNR option \<Rightarrow> (Status \<times> 'v ThumbnailDiffPSNR option) outcome" where
  "CompareThumbnail lib u original_pics webp_data_1 webp_data_2 diff =
     (if original_pics = [] then Returns (kOk, diff)
      else case diff of
        None \<Rightarrow> Returns (kMemoryError, None)
      | Some df \<Rightarrow>
          (case AnimData2PSNR lib original_pics webp_data_1 (Some (fresh_stats u)) of
             UndefinedBehaviour \<Rightarrow> UndefinedBehaviour
           | Returns (error_1, stats_1) \<Rightarrow>
               if error_1 \<noteq> kOk then Returns (error_1, Some df)
               else
                 (case AnimData2PSNR lib original_pics webp_data_2 (Some (fresh_stats u)) of
                    UndefinedBehaviour \<Rightarrow> UndefinedBehaviour
                  | Returns (error_2, stats_2) \<Rightarrow>
                      if error_2 \<noteq> kOk then Returns (error_2, Some df)
                      else
                        (case (stats_1, stats_2) of
                           (Some s1, Some s2) \<Rightarrow>
                             record_diff lib (length original_pics) (psnr s1) (psnr s2) df
                         | _ \<Rightarrow> UndefinedBehaviour))))"

subsection \<open>Vocabulary for the properties\<close>




subsection \<open>A small library to run the utility on\<close>

text \<open>
  A byte buffer is the list of its frames' pixel values; every buffer decodes, on a
  2 by 2 canvas; initialising a picture clears it, and importing stores the pixel
  value. The distortion of two pictures fails when the original has pixel
  value 0, and is 50 minus the distance of the pixel values otherwise. PSNR values are
  integers, with integer division for the means. \<open>used_stats\<close> and \<open>example_diff\<close>
  are objects that already hold one value when they are passed in.
\<close>

definition example_library :: "(nat list, nat, int) library" where
  "example_library =
     \<lparr>WebPAnimDecoderNew =
        (\<lambda>d. Some \<lparr>GetInfo = Some (2, 2), GetNext = map (\<lambda>px. Some (px, 0)) d\<rparr>),
      new_WebPPicture = \<lparr>use_argb = 0, width = 0, height = 0, argb = 0\<rparr>,
      WebPPictureInit = (\<lambda>p. (True, \<lparr>use_argb = 0, width = 0, height = 0, argb = 0\<rparr>)),
      WebPPictureImportRGBA = (\<lambda>p rgba stride. (True, p\<lparr>argb := rgba\<rparr>)),
      WebPPictureDistortion =
        (\<lambda>a b. if argb a = 0 then None else Some (50 - \<bar>int (argb a) - int (argb b)\<bar>)),
      mean_of = (\<lambda>xs n. sum_list xs div int n),
      minus = (\<lambda>a b. a - b),
      sum_of = sum_list,
      div_count = (\<lambda>s n. s div int n)\<rparr>"

definition example_pic :: "nat \<Rightarrow> nat WebPPicture" where
  "example_pic px = \<lparr>use_argb = 1, width = 2, height = 2, argb = px\<rparr>"

definition example_diff :: "int ThumbnailDiffPSNR" where
  "example_diff =
     \<lparr>psnr_diff = [3], max_psnr_decrease = 3, max_psnr_increase = 3, sum_psnr_diff = 3,
      mean_psnr_diff = 3, median_psnr_diff = 3\<rparr>"


section \<open>The thumbnailer (\<^verbatim>\<open>thumbnailer.h\<close>)\<close>

subsection \<open>Data\<close>

text \<open>
  \<^verbatim>\<open>Thumbnailer::FrameData\<close> and the members of \<^verbatim>\<open>Thumbnailer\<close>, as \<^verbatim>\<open>thumbnailer.h\<close>
  declares them (the trailing underscore of the member names is dropped). Left out
  are the members no property below reads: \<^verbatim>\<open>config\<close>, \<^verbatim>\<open>final_psnr\<close> and
  \<^verbatim>\<open>lossy_data\<close> of a frame, and \<^verbatim>\<open>enc_\<close>, \<^verbatim>\<open>anim_config_\<close>, \<^verbatim>\<open>verbose_\<close>,
  \<^verbatim>\<open>webp_method_\<close> and \<^verbatim>\<open>slope_dPSNR_\<close> of the thumbnailer. A new frame has
  \<^verbatim>\<open>encoded_size = 0\<close>, \<^verbatim>\<open>final_quality = -1\<close> and \<^verbatim>\<open>near_lossless = false\<close>.
\<close>

record 'pic FrameData =
  pic :: 'pic
  timestamp_ms :: int
  encoded_size :: nat
  final_quality :: int
  near_lossless :: bool

record 'pic Thumbnailer =
  frames :: "'pic FrameData list"
  loop_count :: int
  byte_budget :: nat
  minimum_lossy_quality :: int

subsection \<open>The Equal-Quality strategy\<close>

text \<open>
  Modelled from the spec: the body of \<^verbatim>\<open>GenerateAnimationEqualQuality\<close> is in
  \<^verbatim>\<open>thumbnailer.cc\<close>, which is not among the sources; \<^verbatim>\<open>thumbnailer.h\<close> only declares
  it. The definitions of this subsection follow section 4.2 of the specification.

  ``Encoding every frame at \<open>q\<close> and assembling the container'' is the parameter
  \<open>assemble\<close>: it maps the pictures with their timestamps and a quality to the bytes
  of the container. \<open>animation_size\<close> is the ``total size'' measured at a probe.
  Failures of the encoder and of the multiplexer are left out: \<open>assemble\<close> always
  yields bytes.
\<close>

definition animation_size ::
  "(('pic \<times> int) list \<Rightarrow> int \<Rightarrow> 'b list) \<Rightarrow> 'pic Thumbnailer \<Rightarrow> int \<Rightarrow> nat" where
  "animation_size assemble th q =
     length (assemble (map (\<lambda>f. (pic f, timestamp_ms f)) (frames th)) q)"

text \<open>
  Modelled from the spec: ``binary search on integer quality'' that ``converges when
  [the] search interval collapses to a single integer; ties favor the higher quality
  that still fits''. The interval is \<open>lo..hi\<close>, the lower end is known to fit, the
  probe is the upper middle, and the search ends with \<open>lo = hi\<close>.
\<close>

function search_quality :: "(int \<Rightarrow> bool) \<Rightarrow> int \<Rightarrow> int \<Rightarrow> int" where
  "search_quality fits lo hi =
     (if lo < hi then
        let mid = (lo + hi + 1) div 2
        in if fits mid then search_quality fits mid hi
           else search_quality fits lo (mid - 1)
      else lo)"
  by pat_completeness auto
termination
  by (relation "measure (\<lambda>(fits, lo, hi). nat (hi - lo))") auto

declare search_quality.simps [simp del]

text \<open>
  Modelled from the spec: ``Lower bound starts at the configured minimum lossy
  quality; if even the minimum exceeds budget, fail with \<^verbatim>\<open>ByteBudgetError\<close>''; the
  upper bound is 100. \<open>None\<close> stands for the failure, \<open>Some q\<close> for the winning
  quality.
\<close>

definition EqualQuality_search ::
  "(('pic \<times> int) list \<Rightarrow> int \<Rightarrow> 'b list) \<Rightarrow> 'pic Thumbnailer \<Rightarrow> int option" where
  "EqualQuality_search assemble th =
     (let fits = (\<lambda>q. animation_size assemble th q \<le> byte_budget th)
      in if \<not> fits (minimum_lossy_quality th) then None
         else Some (search_quality fits (minimum_lossy_quality th) 100))"

text \<open>
  Modelled from the spec: ``Terminal commit: set every frame's \<^verbatim>\<open>final_quality\<close> to
  the winning value and keep the corresponding assembled bytes''. On failure the
  thumbnailer and the caller's \<^verbatim>\<open>webp_data\<close> are returned as they were.
\<close>

definition GenerateAnimationEqualQuality ::
  "(('pic \<times> int) list \<Rightarrow> int \<Rightarrow> 'b list) \<Rightarrow> 'pic Thumbnailer \<Rightarrow> 'b list \<Rightarrow>
   Status \<times> 'pic Thumbnailer \<times> 'b list" where
  "GenerateAnimationEqualQuality assemble th webp_data =
     (case EqualQuality_search assemble th of
        None \<Rightarrow> (kByteBudgetError, th, webp_data)
      | Some q \<Rightarrow>
          (kOk,
           th\<lparr>frames := map (\<lambda>f. f\<lparr>final_quality := q\<rparr>) (frames th)\<rparr>,
           assemble (map (\<lambda>f. (pic f, timestamp_ms f)) (frames th)) q))"

text \<open>
  An encoder to run the strategy on: every frame takes \<open>q\<close> bytes at quality \<open>q\<close>.
  The thumbnailer holds three frames with the timestamps 100, 200 and 300.
\<close>

definition example_assemble :: "(nat \<times> int) list \<Rightarrow> int \<Rightarrow> unit list" where
  "example_assemble fs q = replicate (length fs * nat q) ()"

definition example_thumbnailer :: "nat Thumbnailer" where
  "example_thumbnailer =
     \<lparr>frames = map (\<lambda>t. \<lparr>pic = 0, timestamp_ms = t, encoded_size = 0, final_quality = - 1,
                            near_lossless = False\<rparr>) [100, 200, 300],
      loop_count = 0, byte_budget = 0, minimum_lossy_quality = 0\<rparr>"

section \<open>Properties of the utility\<close>

subsection \<open>The distortion loop\<close>









subsection \<open>The four ways \<^verbatim>\<open>AnimData2PSNR\<close> returns\<close>






subsection \<open>Claim C9\<close>




subsection \<open>Claim C10\<close>

text \<open>
  Claim C10. \<^verbatim>\<open>CompareThumbnail\<close> called with an empty \<^verbatim>\<open>original_pics\<close> returns
  \<^verbatim>\<open>kOk\<close> at once: whatever the two byte buffers and the library are, the status is
  \<^verbatim>\<open>kOk\<close> and the object behind \<^verbatim>\<open>diff\<close> is the one passed in, field for field. This
  also holds for a \<^verbatim>\<open>NULL\<close> \<^verbatim>\<open>diff\<close> (\<open>None\<close>), since the emptiness test comes first:
  the \<^verbatim>\<open>NULL\<close> test is the second statement, and refuses a \<^verbatim>\<open>NULL\<close> \<^verbatim>\<open>diff\<close> with
  \<^verbatim>\<open>kMemoryError\<close> as soon as there is a picture.
\<close>

theorem CompareThumbnail_empty:
  "CompareThumbnail lib u [] webp_data_1 webp_data_2 diff = Returns (kOk, diff) \<and>
   CompareThumbnail lib u (p # ps) webp_data_1 webp_data_2 None = Returns (kMemoryError, None)"
  by (simp add: CompareThumbnail_def)

theorem CompareThumbnail_empty_witness:
  "CompareThumbnail example_library 0 [] [7, 8] [6, 9] None = Returns (kOk, None) \<and>
   CompareThumbnail example_library 0 [] [7, 8] [6, 9] (Some example_diff) =
     Returns (kOk, Some example_diff) \<and>
   CompareThumbnail example_library 0 [example_pic 7] [7, 8] [6, 9] None =
     Returns (kMemoryError, None)"
  using CompareThumbnail_empty[of example_library 0 "[7, 8]" "[6, 9]" None "example_pic 7" "[]"]
    CompareThumbnail_empty[of example_library 0 "[7, 8]" "[6, 9]" "Some example_diff"]
  by simp

section \<open>Properties of the Equal-Quality strategy\<close>

subsection \<open>The binary search\<close>

lemma search_quality_range:
  "lo \<le> hi \<Longrightarrow> lo \<le> search_quality fits lo hi \<and> search_quality fits lo hi \<le> hi"
proof (induction fits lo hi rule: search_quality.induct)
  case (1 fits lo hi)
  show ?case
  proof (cases "lo < hi")
    case False
    with "1.prems" show ?thesis by (simp add: search_quality.simps)
  next
    case True
    define mid where "mid = (lo + hi + 1) div 2"
    have m: "lo < mid" "mid \<le> hi" using True by (auto simp: mid_def)
    show ?thesis
    proof (cases "fits mid")
      case True
      have "mid \<le> search_quality fits mid hi \<and> search_quality fits mid hi \<le> hi"
        using "1.IH"(1)[OF \<open>lo < hi\<close> mid_def True] m by simp
      then show ?thesis
        using \<open>lo < hi\<close> True m by (subst (1 2) search_quality.simps) (simp add: mid_def Let_def)
    next
      case False
      have "lo \<le> search_quality fits lo (mid - 1) \<and> search_quality fits lo (mid - 1) \<le> mid - 1"
        using "1.IH"(2)[OF \<open>lo < hi\<close> mid_def False] m by simp
      then show ?thesis
        using \<open>lo < hi\<close> False m by (subst (1 2) search_quality.simps) (simp add: mid_def Let_def)
    qed
  qed
qed

lemma search_quality_mono:
  "\<forall>q. fits1 q \<longrightarrow> fits2 q \<Longrightarrow>
   search_quality fits1 lo hi \<le> search_quality fits2 lo hi"
proof (induction fits1 lo hi rule: search_quality.induct)
  case (1 fits1 lo hi)
  show ?case
  proof (cases "lo < hi")
    case False
    then show ?thesis by (simp add: search_quality.simps)
  next
    case True
    define mid where "mid = (lo + hi + 1) div 2"
    have m: "lo < mid" "mid \<le> hi" using True by (auto simp: mid_def)
    have unfold1: "search_quality fits1 lo hi =
        (if fits1 mid then search_quality fits1 mid hi else search_quality fits1 lo (mid - 1))"
      using True by (subst search_quality.simps) (simp add: mid_def Let_def)
    have unfold2: "search_quality fits2 lo hi =
        (if fits2 mid then search_quality fits2 mid hi else search_quality fits2 lo (mid - 1))"
      using True by (subst search_quality.simps) (simp add: mid_def Let_def)
    show ?thesis
    proof (cases "fits1 mid")
      case f1: True
      then have f2: "fits2 mid" using "1.prems"(1) by blast
      have "search_quality fits1 mid hi \<le> search_quality fits2 mid hi"
        using "1.IH"(1)[OF True mid_def f1 "1.prems"(1)] by simp
      then show ?thesis using unfold1 unfold2 f1 f2 by simp
    next
      case nf1: False
      have low: "search_quality fits1 lo (mid - 1) \<le> mid - 1"
        using search_quality_range[of lo "mid - 1" fits1] m by simp
      show ?thesis
      proof (cases "fits2 mid")
        case True
        have "mid \<le> search_quality fits2 mid hi"
          using search_quality_range[of mid hi fits2] m by simp
        then show ?thesis using unfold1 unfold2 nf1 True low by simp
      next
        case False
        have "search_quality fits1 lo (mid - 1) \<le> search_quality fits2 lo (mid - 1)"
          using "1.IH"(2)[OF \<open>lo < hi\<close> mid_def nf1 "1.prems"(1)] by simp
        then show ?thesis using unfold1 unfold2 nf1 False by simp
      qed
    qed
  qed
qed

lemma EqualQuality_search_mono:
  assumes "b1 \<le> b2"
    and "EqualQuality_search assemble (th\<lparr>byte_budget := b1\<rparr>) = Some q1"
  shows "\<exists>q2. EqualQuality_search assemble (th\<lparr>byte_budget := b2\<rparr>) = Some q2 \<and> q1 \<le> q2"
proof -
  let ?size = "animation_size assemble th"
  let ?lo = "minimum_lossy_quality th"
  have size: "animation_size assemble (th\<lparr>byte_budget := b\<rparr>) = ?size" for b
    by (rule ext) (simp add: animation_size_def)
  have fits1: "?size ?lo \<le> b1" and q1: "q1 = search_quality (\<lambda>q. ?size q \<le> b1) ?lo 100"
    using assms(2) by (auto simp: EqualQuality_search_def size split: if_splits)
  have fits2: "?size ?lo \<le> b2"
    using fits1 assms(1) by simp
  have "search_quality (\<lambda>q. ?size q \<le> b1) ?lo 100 \<le> search_quality (\<lambda>q. ?size q \<le> b2) ?lo 100"
    using assms(1) by (intro search_quality_mono) auto
  then show ?thesis
    using fits2 q1 by (simp add: EqualQuality_search_def size)
qed

lemma example_search_151:
  "EqualQuality_search example_assemble (example_thumbnailer\<lparr>byte_budget := 151\<rparr>) = Some 50"
  by (simp add: EqualQuality_search_def animation_size_def example_assemble_def
      example_thumbnailer_def search_quality.simps Let_def)

lemma example_search_200:
  "EqualQuality_search example_assemble (example_thumbnailer\<lparr>byte_budget := 200\<rparr>) = Some 66"
  by (simp add: EqualQuality_search_def animation_size_def example_assemble_def
      example_thumbnailer_def search_quality.simps Let_def)

subsection \<open>Claim C7\<close>

text \<open>
  Claim C7. Let \<open>b1 \<le> b2\<close> be two budgets for the same frames and configuration, and
  let the Equal-Quality strategy succeed at \<open>b1\<close>. Then it succeeds at \<open>b2\<close> as well,
  and the quality \<open>q2\<close> it chooses there is at least the quality \<open>q1\<close> chosen at
  \<open>b1\<close>; after each run every frame's \<^verbatim>\<open>final_quality\<close> is the chosen value. No
  assumption on the sizes the encoder produces is needed.
\<close>

theorem EqualQuality_budget_monotone:
  assumes "b1 \<le> b2"
    and "GenerateAnimationEqualQuality assemble (th\<lparr>byte_budget := b1\<rparr>) webp_data = (kOk, th1, data1)"
  shows "\<exists>q1 q2 th2 data2.
           GenerateAnimationEqualQuality assemble (th\<lparr>byte_budget := b2\<rparr>) webp_data = (kOk, th2, data2) \<and>
           q1 \<le> q2 \<and>
           EqualQuality_search assemble (th\<lparr>byte_budget := b1\<rparr>) = Some q1 \<and>
           EqualQuality_search assemble (th\<lparr>byte_budget := b2\<rparr>) = Some q2 \<and>
           frames th1 = map (\<lambda>f. f\<lparr>final_quality := q1\<rparr>) (frames th) \<and>
           frames th2 = map (\<lambda>f. f\<lparr>final_quality := q2\<rparr>) (frames th)"
proof -
  obtain q1 where s1: "EqualQuality_search assemble (th\<lparr>byte_budget := b1\<rparr>) = Some q1"
    using assms(2) by (auto simp: GenerateAnimationEqualQuality_def split: option.splits)
  then have th1: "frames th1 = map (\<lambda>f. f\<lparr>final_quality := q1\<rparr>) (frames th)"
    using assms(2) by (auto simp: GenerateAnimationEqualQuality_def)
  obtain q2 where s2: "EqualQuality_search assemble (th\<lparr>byte_budget := b2\<rparr>) = Some q2"
    and le: "q1 \<le> q2"
    using EqualQuality_search_mono[OF assms(1) s1] by blast
  show ?thesis
    using s1 s2 le th1 by (simp add: GenerateAnimationEqualQuality_def)
qed

theorem EqualQuality_budget_monotone_witness:
  "(151::nat) \<le> 200 \<and>
   fst (GenerateAnimationEqualQuality example_assemble
          (example_thumbnailer\<lparr>byte_budget := 151\<rparr>) []) = kOk \<and>
   fst (GenerateAnimationEqualQuality example_assemble
          (example_thumbnailer\<lparr>byte_budget := 200\<rparr>) []) = kOk \<and>
   map final_quality (frames (fst (snd (GenerateAnimationEqualQuality example_assemble
          (example_thumbnailer\<lparr>byte_budget := 151\<rparr>) [])))) = [50, 50, 50] \<and>
   map final_quality (frames (fst (snd (GenerateAnimationEqualQuality example_assemble
          (example_thumbnailer\<lparr>byte_budget := 200\<rparr>) [])))) = [66, 66, 66]"
proof -
  have le: "(151::nat) \<le> 200" by simp
  obtain th1 data1 where run1:
    "GenerateAnimationEqualQuality example_assemble (example_thumbnailer\<lparr>byte_budget := 151\<rparr>) []
       = (kOk, th1, data1)"
    by (simp add: GenerateAnimationEqualQuality_def example_search_151)
  from EqualQuality_budget_monotone[OF le run1]
  obtain q1 q2 th2 data2 where
    run2: "GenerateAnimationEqualQuality example_assemble
             (example_thumbnailer\<lparr>byte_budget := 200\<rparr>) [] = (kOk, th2, data2)"
    and s1: "EqualQuality_search example_assemble (example_thumbnailer\<lparr>byte_budget := 151\<rparr>) = Some q1"
    and s2: "EqualQuality_search example_assemble (example_thumbnailer\<lparr>byte_budget := 200\<rparr>) = Some q2"
    and f1: "frames th1 = map (\<lambda>f. f\<lparr>final_quality := q1\<rparr>) (frames example_thumbnailer)"
    and f2: "frames th2 = map (\<lambda>f. f\<lparr>final_quality := q2\<rparr>) (frames example_thumbnailer)"
    by blast
  have "q1 = 50" "q2 = 66"
    using s1 s2 by (simp_all add: example_search_151 example_search_200)
  then show ?thesis
    using le run1 run2 f1 f2 by (simp add: example_thumbnailer_def)
qed

end
